theory Spec2Isabelle
  imports Complex_Main "HOL-Library.Word"
begin

section \<open>Medical report processing service: a shallow embedding of app.py\<close>

text \<open>
  The service of \<^verbatim>\<open>app.py\<close> is orchestration code around collaborators that live outside
  the three source files: the temporary-file facility, the OCR converter
  (\<^verbatim>\<open>pdf_to_markdown\<close>), the extraction client (\<^verbatim>\<open>md_to_json\<close>) and the pydantic
  constructors of the report classes. Each collaborator is a parameter of the model (a
  field of the record \<open>deps\<close>); a collaborator that raises returns \<open>Inl\<close> with the text
  \<^verbatim>\<open>str(e)\<close> of the exception. Everything the handlers mutate is a field of the
  record \<open>state\<close>, which every operation takes and returns.

  Strings are lists of 8-bit characters, read as the code points U+0000 to U+00FF.
\<close>

subsection \<open>Python strings: truthiness, lower, endswith, strip\<close>

type_synonym path = string
type_synonym bytes = "8 word list"

text \<open>\<^verbatim>\<open>bool(x)\<close> for \<^verbatim>\<open>x: Optional[str]\<close>: \<^verbatim>\<open>None\<close> and \<^verbatim>\<open>''\<close> are falsy.\<close>

definition truthy :: "string option \<Rightarrow> bool" where
  "truthy x = (case x of None \<Rightarrow> False | Some v \<Rightarrow> v \<noteq> [])"

text \<open>\<^verbatim>\<open>str.lower\<close> on one code point below 256: A to Z, and the Latin-1 capitals
  U+00C0 to U+00DE except the multiplication sign U+00D7, move up by 32.\<close>

definition lower_char :: "char \<Rightarrow> char" where
  "lower_char c =
     (let n = (of_char c :: nat)
      in if (65 \<le> n \<and> n \<le> 90) \<or> (192 \<le> n \<and> n \<le> 222 \<and> n \<noteq> 215)
         then char_of (n + 32) else c)"

definition lower :: "string \<Rightarrow> string" where
  "lower s = map lower_char s"

definition endswith :: "string \<Rightarrow> string \<Rightarrow> bool" where
  "endswith s suffix =
     (length suffix \<le> length s \<and> drop (length s - length suffix) s = suffix)"

text \<open>\<^verbatim>\<open>str.isspace\<close> on one code point below 256: tab, line feed, vertical tab, form
  feed, carriage return, the four separators U+001C to U+001F, space, next line U+0085
  and no-break space U+00A0.\<close>

definition isspace :: "char \<Rightarrow> bool" where
  "isspace c =
     (let n = (of_char c :: nat)
      in (9 \<le> n \<and> n \<le> 13) \<or> (28 \<le> n \<and> n \<le> 32) \<or> n = 133 \<or> n = 160)"

definition lstrip :: "string \<Rightarrow> string" where
  "lstrip s = dropWhile isspace s"

definition rstrip :: "string \<Rightarrow> string" where
  "rstrip s = rev (dropWhile isspace (rev s))"

definition strip :: "string \<Rightarrow> string" where
  "strip s = rstrip (lstrip s)"

subsection \<open>Values, exceptions, responses\<close>

text \<open>The loosely typed values of an extraction result. A dict is an association list in
  insertion order.\<close>

datatype pyval =
    PNone
  | PBool bool
  | PInt int
  | PFloat real
  | PStr string
  | PDate int int int
  | PList "pyval list"
  | PDict "(string \<times> pyval) list"

type_synonym raw = "(string \<times> pyval) list"

datatype report_kind = Therapy | Radiation

text \<open>Exceptions other than \<^verbatim>\<open>HTTPException\<close>: the \<^verbatim>\<open>ValueError\<close> of \<^verbatim>\<open>get_converter\<close>, and
  whatever a collaborator raised, known by its text \<^verbatim>\<open>str(e)\<close>. Collaborators are taken
  to raise subclasses of \<^verbatim>\<open>Exception\<close> that are not \<^verbatim>\<open>HTTPException\<close>, which only the
  handlers raise.\<close>

datatype error = ValueError string | External string

fun str_of :: "error \<Rightarrow> string" where
  "str_of (ValueError m) = m"
| "str_of (External m) = m"

datatype http_exception = HTTPException (status_code: nat) (detail: string)

text \<open>\<^verbatim>\<open>TherapyResponse\<close> and \<^verbatim>\<open>RadiationResponse\<close> have the same four fields.\<close>

record response =
  success :: bool
  message :: string
  data :: "raw option"
  processing_time :: "real option"

record HealthResponse =
  status :: string
  mistral_api_configured :: bool

text \<open>\<^verbatim>\<open>UploadFile\<close>: the filename the client sent, if any, and the spooled bytes.\<close>

record upload =
  filename :: "string option"
  content :: bytes

subsection \<open>Log records and calls to collaborators\<close>

datatype level = INFO | WARNING | ERROR

text \<open>One constructor per logger call of the source, carrying the values its f-string
  interpolates.\<close>

datatype log_msg =
    Cleaned_up path
  | Failed_to_cleanup path string
  | Health_check_failed string
  | Processing_report report_kind string nat
  | Converting_pdf
  | Extracting_data report_kind
  | Validation_warning string
  | Successfully_processed string real
  | Error_processing report_kind string string

datatype event =
    Log level log_msg
  | Called_NamedTemporaryFile
  | Called_MarkdownConverter string
  | Called_get_mistral_client
  | Called_pdf_to_markdown_text path "bytes option" bool
  | Called_get_json report_kind string
  | Called_Report report_kind raw

subsection \<open>Collaborators and state\<close>

text \<open>
  \<^item> \<open>NamedTemporaryFile\<close>: given the files that exist, the name of the file it creates,
    or the error it raises;
  \<^item> \<open>os_remove_error\<close>: the error \<^verbatim>\<open>os.remove\<close> raises on an existing file, if any;
  \<^item> \<open>MarkdownConverter\<close>: the constructor of the converter handle, from the API key;
  \<^item> \<open>get_mistral_client\<close>: construction of the extraction client, from the environment;
  \<^item> \<open>pdf_to_markdown_text\<close>: files, path, converter handle, \<^verbatim>\<open>with_images\<close>;
  \<^item> \<open>get_therapy_json\<close>, \<^verbatim>\<open>get_radiation_json\<close>: from the markdown text, a dict or \<^verbatim>\<open>None\<close>;
  \<^item> \<open>TherapyReport\<close>, \<open>RadiationTherapyReport\<close>: the pydantic constructors called with
    the dict as keyword arguments;
  \<^item> \<open>model_dump\<close>: the dict of a constructed report.
\<close>

record ('c, 'r) deps =
  NamedTemporaryFile :: "(path \<rightharpoonup> bytes) \<Rightarrow> string + path"
  os_remove_error :: "(path \<rightharpoonup> bytes) \<Rightarrow> path \<Rightarrow> string option"
  MarkdownConverter :: "string \<Rightarrow> string + 'c"
  get_mistral_client :: "(string \<rightharpoonup> string) \<Rightarrow> string + unit"
  pdf_to_markdown_text :: "(path \<rightharpoonup> bytes) \<Rightarrow> path \<Rightarrow> 'c \<Rightarrow> bool \<Rightarrow> string + string"
  get_therapy_json :: "string \<Rightarrow> string + raw option"
  get_radiation_json :: "string \<Rightarrow> string + raw option"
  TherapyReport :: "raw \<Rightarrow> string + 'r"
  RadiationTherapyReport :: "raw \<Rightarrow> string + 'r"
  model_dump :: "'r \<Rightarrow> raw"

text \<open>
  \<^item> \<open>environ\<close>: \<^verbatim>\<open>os.environ\<close>;
  \<^item> \<open>converter_var\<close>: the module global \<^verbatim>\<open>_converter\<close>;
  \<^item> \<open>files\<close>: the files on disk;
  \<^item> \<open>background_tasks\<close>: the paths for which \<^verbatim>\<open>cleanup_temp_file\<close> was added to the
    request's \<^verbatim>\<open>BackgroundTasks\<close>;
  \<^item> \<open>trace\<close>: log records and collaborator calls, oldest first.
\<close>

record 'c state =
  environ :: "string \<rightharpoonup> string"
  converter_var :: "'c option"
  files :: "path \<rightharpoonup> bytes"
  background_tasks :: "path list"
  trace :: "event list"

definition emit :: "event list \<Rightarrow> 'c state \<Rightarrow> 'c state" where
  "emit es s = s\<lparr>trace := trace s @ es\<rparr>"

definition add_task :: "path \<Rightarrow> 'c state \<Rightarrow> 'c state" where
  "add_task p s = s\<lparr>background_tasks := background_tasks s @ [p]\<rparr>"

definition MISTRAL_API_KEY :: string where
  "MISTRAL_API_KEY = ''MISTRAL_API_KEY''"

definition not_set_message :: string where
  "not_set_message = ''MISTRAL_API_KEY environment variable not set.''"

subsection \<open>get_converter\<close>

definition get_converter :: "('c, 'r) deps \<Rightarrow> 'c state \<Rightarrow> (error + 'c) \<times> 'c state" where
  "get_converter d s =
     (case converter_var s of
        Some c \<Rightarrow> (Inr c, s)
      | None \<Rightarrow>
          (let api_key = environ s MISTRAL_API_KEY
           in if \<not> truthy api_key then (Inl (ValueError not_set_message), s)
              else
                (let k = the api_key; s1 = emit [Called_MarkdownConverter k] s
                 in case MarkdownConverter d k of
                      Inl e \<Rightarrow> (Inl (External e), s1)
                    | Inr c \<Rightarrow> (Inr c, s1\<lparr>converter_var := Some c\<rparr>))))"

text \<open>A sequence of calls to \<open>get_converter\<close>, the environment being replaced before
  each call (the process environment may change between requests). Returns the results
  in order and the final state.\<close>

fun get_converter_calls ::
  "('c, 'r) deps \<Rightarrow> (string \<rightharpoonup> string) list \<Rightarrow> 'c state \<Rightarrow> (error + 'c) list \<times> 'c state" where
  "get_converter_calls d [] s = ([], s)"
| "get_converter_calls d (env # envs) s =
     (let (r, s1) = get_converter d (s\<lparr>environ := env\<rparr>);
          (rs, s2) = get_converter_calls d envs s1
      in (r # rs, s2))"

subsection \<open>cleanup_temp_file\<close>

text \<open>The body of the \<^verbatim>\<open>try\<close>: \<open>Inl\<close> is an exception raised inside it.
  \<^verbatim>\<open>os.path.exists\<close> does not raise; \<^verbatim>\<open>os.remove\<close> may.\<close>

definition cleanup_try :: "('c, 'r) deps \<Rightarrow> path \<Rightarrow> 'c state \<Rightarrow> string + 'c state" where
  "cleanup_try d file_path s =
     (if files s file_path \<noteq> None
      then (case os_remove_error d (files s) file_path of
              Some e \<Rightarrow> Inl e
            | None \<Rightarrow> Inr (emit [Log INFO (Cleaned_up file_path)]
                             (s\<lparr>files := (files s)(file_path := None)\<rparr>)))
      else Inr s)"

text \<open>The whole function: \<open>Inl\<close> would be an exception that escapes it.\<close>

definition cleanup_temp_file :: "('c, 'r) deps \<Rightarrow> path \<Rightarrow> 'c state \<Rightarrow> string + 'c state" where
  "cleanup_temp_file d file_path s =
     (case cleanup_try d file_path s of
        Inr s1 \<Rightarrow> Inr s1
      | Inl e \<Rightarrow> Inr (emit [Log ERROR (Failed_to_cleanup file_path e)] s))"

subsection \<open>health_check\<close>

definition health_failed :: "error \<Rightarrow> 'c state \<Rightarrow> (http_exception + HealthResponse) \<times> 'c state" where
  "health_failed e s =
     (Inl (HTTPException 500 (''Service unhealthy: '' @ str_of e)),
      emit [Log ERROR (Health_check_failed (str_of e))] s)"

definition health_check ::
  "('c, 'r) deps \<Rightarrow> 'c state \<Rightarrow> (http_exception + HealthResponse) \<times> 'c state" where
  "health_check d s =
     (let mistral_configured = truthy (environ s MISTRAL_API_KEY)
      in if mistral_configured
         then
           (let s1 = emit [Called_get_mistral_client] s
            in case get_mistral_client d (environ s) of
                 Inl e \<Rightarrow> health_failed (External e) s1
               | Inr u \<Rightarrow>
                   (case get_converter d s1 of
                      (Inl e, s2) \<Rightarrow> health_failed e s2
                    | (Inr c, s2) \<Rightarrow>
                        (Inr \<lparr>status = ''healthy'', mistral_api_configured = mistral_configured\<rparr>, s2)))
         else (Inr \<lparr>status = ''healthy'', mistral_api_configured = mistral_configured\<rparr>, s))"

subsection \<open>The two upload handlers\<close>

text \<open>\<^verbatim>\<open>process_therapy_report\<close> and \<^verbatim>\<open>process_radiation_report\<close> are the same text up to
  the extraction function, the report class and the wording of three messages; the
  parts that differ are selected by the report kind.\<close>

fun get_json :: "report_kind \<Rightarrow> ('c, 'r) deps \<Rightarrow> string \<Rightarrow> string + raw option" where
  "get_json Therapy d = get_therapy_json d"
| "get_json Radiation d = get_radiation_json d"

fun Report :: "report_kind \<Rightarrow> ('c, 'r) deps \<Rightarrow> raw \<Rightarrow> string + 'r" where
  "Report Therapy d = TherapyReport d"
| "Report Radiation d = RadiationTherapyReport d"

fun success_message :: "report_kind \<Rightarrow> string \<Rightarrow> string" where
  "success_message Therapy fname = ''Successfully processed therapy report: '' @ fname"
| "success_message Radiation fname = ''Successfully processed radiation therapy report: '' @ fname"

text \<open>The branch \<^verbatim>\<open>except Exception as e\<close>: log, add the cleanup task if
  \<^verbatim>\<open>temp_file_path\<close> is truthy, raise the 500.\<close>

definition on_exception ::
  "report_kind \<Rightarrow> string \<Rightarrow> path option \<Rightarrow> error \<Rightarrow> 'c state \<Rightarrow> (http_exception + response) \<times> 'c state" where
  "on_exception kind fname temp_file_path e s =
     (let s1 = emit [Log ERROR (Error_processing kind fname (str_of e))] s;
          s2 = (if truthy temp_file_path then add_task (the temp_file_path) s1 else s1)
      in (Inl (HTTPException 500 (''Internal server error: '' @ str_of e)), s2))"

text \<open>The handler. \<open>start_time\<close> and \<open>end_time\<close> are the two readings of \<^verbatim>\<open>time.time()\<close>.
  An \<^verbatim>\<open>HTTPException\<close> raised in the \<^verbatim>\<open>try\<close> is re-raised as it is by the branch
  \<^verbatim>\<open>except HTTPException: raise\<close>, which does nothing else. Creation of the scratch
  file may raise; reading the spooled upload and writing it to the open scratch file
  are taken to succeed, so the file appears with the uploaded bytes in one step.\<close>

definition process_report ::
  "report_kind \<Rightarrow> ('c, 'r) deps \<Rightarrow> upload \<Rightarrow> real \<Rightarrow> real \<Rightarrow> 'c state
     \<Rightarrow> (http_exception + response) \<times> 'c state" where
  "process_report kind d file start_time end_time s =
     (if \<not> truthy (filename file) \<or> \<not> endswith (lower (the (filename file))) ''.pdf''
      then (Inl (HTTPException 400 ''Only PDF files are supported''), s)
      else
        (let fname = the (filename file); s0 = emit [Called_NamedTemporaryFile] s
         in case NamedTemporaryFile d (files s0) of
              Inl e \<Rightarrow> on_exception kind fname None (External e) s0
            | Inr temp_file_path \<Rightarrow>
                (let s1 = emit [Log INFO (Processing_report kind fname (length (content file))),
                                Log INFO Converting_pdf]
                            (s0\<lparr>files := (files s0)(temp_file_path \<mapsto> content file)\<rparr>)
                 in case get_converter d s1 of
                      (Inl e, s2) \<Rightarrow> on_exception kind fname (Some temp_file_path) e s2
                    | (Inr converter, s2) \<Rightarrow>
                        (let s3 = emit [Called_pdf_to_markdown_text temp_file_path
                                          (files s2 temp_file_path) False] s2
                         in case pdf_to_markdown_text d (files s2) temp_file_path converter False of
                              Inl e \<Rightarrow> on_exception kind fname (Some temp_file_path) (External e) s3
                            | Inr markdown_text \<Rightarrow>
                                if strip markdown_text = []
                                then (Inl (HTTPException 400 ''Failed to extract text from PDF''), s3)
                                else
                                  (let s4 = emit [Log INFO (Extracting_data kind),
                                                  Called_get_json kind markdown_text] s3
                                   in case get_json kind d markdown_text of
                                        Inl e \<Rightarrow>
                                          on_exception kind fname (Some temp_file_path) (External e) s4
                                      | Inr structured_data \<Rightarrow>
                                          if structured_data = None \<or> structured_data = Some []
                                          then (Inl (HTTPException 400
                                                  ''Failed to extract structured data from document''), s4)
                                          else
                                            (let sd = the structured_data;
                                                 s5 = emit [Called_Report kind sd] s4;
                                                 (validated_data, s6) =
                                                   (case Report kind d sd of
                                                      Inr r \<Rightarrow> (model_dump d r, s5)
                                                    | Inl validation_error \<Rightarrow>
                                                        (sd, emit [Log WARNING
                                                           (Validation_warning validation_error)] s5));
                                                 elapsed = end_time - start_time;
                                                 s7 = add_task temp_file_path
                                                        (emit [Log INFO
                                                           (Successfully_processed fname elapsed)] s6)
                                             in (Inr \<lparr>success = True,
                                                      message = success_message kind fname,
                                                      data = Some validated_data,
                                                      processing_time = Some elapsed\<rparr>, s7)))))))"

definition process_therapy_report ::
  "('c, 'r) deps \<Rightarrow> upload \<Rightarrow> real \<Rightarrow> real \<Rightarrow> 'c state \<Rightarrow> (http_exception + response) \<times> 'c state" where
  "process_therapy_report = process_report Therapy"

definition process_radiation_report ::
  "('c, 'r) deps \<Rightarrow> upload \<Rightarrow> real \<Rightarrow> real \<Rightarrow> 'c state \<Rightarrow> (http_exception + response) \<times> 'c state" where
  "process_radiation_report = process_report Radiation"

subsection \<open>The report classes of therapy_models.py and rad_models.py\<close>

text \<open>A field annotation of the two schema files. \<open>TClass\<close> names another model class.\<close>

datatype field_type =
    TStr | TInt | TFloat | TBool | TDate
  | TOptional field_type
  | TList field_type
  | TClass string

text \<open>A declared field: its name, whether it is required (\<^verbatim>\<open>Field(...)\<close>) or defaults to
  \<^verbatim>\<open>None\<close> (\<^verbatim>\<open>Field(None, ...)\<close>), and its annotation.\<close>

type_synonym field = "string \<times> bool \<times> field_type"

definition DrugAdministered_fields :: "field list" where
  "DrugAdministered_fields =
     [(''drug_name'', True, TStr),
      (''dosage'', False, TOptional TFloat),
      (''unit'', False, TOptional TStr)]"

definition TherapyReport_fields :: "field list" where
  "TherapyReport_fields =
     [(''patient_id'', True, TStr),
      (''therapy_type'', True, TStr),
      (''administration_route'', True, TStr),
      (''drugs_administered'', True, TList (TClass ''DrugAdministered'')),
      (''first_date_of_therapy'', True, TDate),
      (''number_of_cycles'', True, TInt),
      (''cycle_interval_days'', True, TInt),
      (''adverse_event_observed'', True, TBool),
      (''adverse_event_medication'', False, TOptional TStr),
      (''comment'', False, TOptional TStr),
      (''hospital_name'', True, TStr),
      (''hospital_location'', True, TStr)]"

definition RadiationTherapyReport_fields :: "field list" where
  "RadiationTherapyReport_fields =
     [(''patient_name'', True, TStr),
      (''test_therapy'', True, TStr),
      (''radiation_type'', True, TStr),
      (''start_date'', True, TDate),
      (''end_date'', True, TDate),
      (''fractions'', True, TInt),
      (''dosage'', True, TFloat),
      (''unit'', True, TStr),
      (''area_treated'', True, TStr),
      (''events'', False, TOptional TStr),
      (''medication'', False, TOptional TStr),
      (''lab_name'', True, TStr),
      (''lab_location'', True, TStr),
      (''comment'', False, TOptional TStr)]"

text \<open>Construction of a model from keyword arguments, field by field in declaration
  order: a key that is present is validated against the annotation by \<open>coerce\<close>
  (pydantic's conversion of one value, a parameter), a missing required key is an
  error, a missing optional key takes the default \<^verbatim>\<open>None\<close>, keys that are not declared
  are ignored. The result is the names of the offending fields and the validated
  values.\<close>

fun validate_fields ::
  "(field_type \<Rightarrow> pyval \<Rightarrow> pyval option) \<Rightarrow> field list \<Rightarrow> raw \<Rightarrow> string list \<times> raw" where
  "validate_fields coerce [] kwargs = ([], [])"
| "validate_fields coerce ((name, required, ty) # fs) kwargs =
     (let (errs, vals) = validate_fields coerce fs kwargs
      in case map_of kwargs name of
           None \<Rightarrow> if required then (name # errs, vals) else (errs, (name, PNone) # vals)
         | Some v \<Rightarrow>
             (case coerce ty v of
                None \<Rightarrow> (name # errs, vals)
              | Some v' \<Rightarrow> (errs, (name, v') # vals)))"

text \<open>The constructor raises when a field offends; \<open>render\<close> is the text of the
  validation error. A constructed report is held as its validated fields, which is
  also what \<^verbatim>\<open>model_dump()\<close> returns.\<close>

definition construct ::
  "(field_type \<Rightarrow> pyval \<Rightarrow> pyval option) \<Rightarrow> (string list \<Rightarrow> string) \<Rightarrow> field list \<Rightarrow> raw
     \<Rightarrow> string + raw" where
  "construct coerce render fs kwargs =
     (case validate_fields coerce fs kwargs of
        ([], vals) \<Rightarrow> Inr vals
      | (e # errs, vals) \<Rightarrow> Inl (render (e # errs)))"

text \<open>A strict instance of the per-field validation, for the examples: a value is
  accepted when it already has the declared type, and an integer where a float is
  declared. (pydantic's default mode accepts more.)\<close>

fun coerce_leaf :: "field_type \<Rightarrow> pyval \<Rightarrow> pyval option" where
  "coerce_leaf TStr (PStr x) = Some (PStr x)"
| "coerce_leaf TInt (PInt i) = Some (PInt i)"
| "coerce_leaf TFloat (PFloat x) = Some (PFloat x)"
| "coerce_leaf TFloat (PInt i) = Some (PFloat (of_int i))"
| "coerce_leaf TBool (PBool b) = Some (PBool b)"
| "coerce_leaf TDate (PDate y m d) = Some (PDate y m d)"
| "coerce_leaf (TOptional t) PNone = Some PNone"
| "coerce_leaf (TOptional t) v = coerce_leaf t v"
| "coerce_leaf t v = None"

fun coerce_drug :: "pyval \<Rightarrow> pyval option" where
  "coerce_drug (PDict kv) =
     (case validate_fields coerce_leaf DrugAdministered_fields kv of
        ([], vals) \<Rightarrow> Some (PDict vals)
      | (e # errs, vals) \<Rightarrow> None)"
| "coerce_drug v = None"

fun coerce_strict :: "field_type \<Rightarrow> pyval \<Rightarrow> pyval option" where
  "coerce_strict (TList (TClass c)) (PList vs) =
     (if c = ''DrugAdministered'' \<and> list_all (\<lambda>v. coerce_drug v \<noteq> None) vs
      then Some (PList (map (\<lambda>v. the (coerce_drug v)) vs)) else None)"
| "coerce_strict t v = coerce_leaf t v"

definition render_fields :: "string list \<Rightarrow> string" where
  "render_fields errs = concat (map (\<lambda>n. n @ ''; '') errs)"

text \<open>Collaborators for the examples: the temporary file is \<^verbatim>\<open>/tmp/t.pdf\<close>, removal
  succeeds, the converter handle is the API key, the OCR text and the extraction
  result are given, the report constructors are the strict ones above.\<close>

definition example_deps :: "string \<Rightarrow> raw option \<Rightarrow> (string, raw) deps" where
  "example_deps text extraction =
     \<lparr>NamedTemporaryFile = (\<lambda>fs. Inr ''/tmp/t.pdf''),
      os_remove_error = (\<lambda>fs p. None),
      MarkdownConverter = (\<lambda>k. Inr k),
      get_mistral_client = (\<lambda>env. Inr ()),
      pdf_to_markdown_text = (\<lambda>fs p c with_images. Inr text),
      get_therapy_json = (\<lambda>t. Inr extraction),
      get_radiation_json = (\<lambda>t. Inr extraction),
      TherapyReport = construct coerce_strict render_fields TherapyReport_fields,
      RadiationTherapyReport = construct coerce_strict render_fields RadiationTherapyReport_fields,
      model_dump = (\<lambda>r. r)\<rparr>"

text \<open>Collaborators whose client constructors raise.\<close>

definition failing_deps :: "string option \<Rightarrow> string option \<Rightarrow> (string, raw) deps" where
  "failing_deps client_error converter_error =
     (example_deps [] None)
       \<lparr>MarkdownConverter := (\<lambda>k. case converter_error of Some e \<Rightarrow> Inl e | None \<Rightarrow> Inr k),
        get_mistral_client := (\<lambda>env. case client_error of Some e \<Rightarrow> Inl e | None \<Rightarrow> Inr ())\<rparr>"

text \<open>A fresh process: the credential as given, no converter yet, no files.\<close>

definition initial_state :: "string option \<Rightarrow> string state" where
  "initial_state credential =
     \<lparr>environ = (\<lambda>k. if k = MISTRAL_API_KEY then credential else None),
      converter_var = None,
      files = Map.empty,
      background_tasks = [],
      trace = []\<rparr>"

text \<open>An extraction result with every required field of \<^verbatim>\<open>RadiationTherapyReport\<close>.\<close>

definition example_radiation :: raw where
  "example_radiation =
     [(''patient_name'', PStr ''A. Patient''),
      (''test_therapy'', PStr ''therapy''),
      (''radiation_type'', PStr ''EBRT''),
      (''start_date'', PDate 2024 1 8),
      (''end_date'', PDate 2024 2 2),
      (''fractions'', PInt 20),
      (''dosage'', PInt 40),
      (''unit'', PStr ''GY''),
      (''area_treated'', PStr ''Spine''),
      (''lab_name'', PStr ''General Hospital''),
      (''lab_location'', PStr ''Pune'')]"

text \<open>The first four bytes of a PDF file, and an upload named \<^verbatim>\<open>report.pdf\<close> holding them.\<close>

definition pdf_magic :: bytes where
  "pdf_magic = [0x25, 0x50, 0x44, 0x46]"

definition example_upload :: upload where
  "example_upload = \<lparr>filename = Some ''report.pdf'', content = pdf_magic\<rparr>"

text \<open>What the strict radiation constructor makes of \<open>example_radiation\<close>: the dosage as a
  float, the three optional fields at their default.\<close>

definition example_radiation_dump :: raw where
  "example_radiation_dump =
     [(''patient_name'', PStr ''A. Patient''),
      (''test_therapy'', PStr ''therapy''),
      (''radiation_type'', PStr ''EBRT''),
      (''start_date'', PDate 2024 1 8),
      (''end_date'', PDate 2024 2 2),
      (''fractions'', PInt 20),
      (''dosage'', PFloat 40),
      (''unit'', PStr ''GY''),
      (''area_treated'', PStr ''Spine''),
      (''events'', PNone),
      (''medication'', PNone),
      (''lab_name'', PStr ''General Hospital''),
      (''lab_location'', PStr ''Pune''),
      (''comment'', PNone)]"

text \<open>The fields of \<^verbatim>\<open>TherapyReport\<close> that \<open>example_radiation\<close> lacks, as \<open>render_fields\<close>
  prints them.\<close>

definition example_missing :: string where
  "example_missing = ''patient_id; therapy_type; administration_route; drugs_administered; first_date_of_therapy; number_of_cycles; cycle_interval_days; adverse_event_observed; hospital_name; hospital_location; ''"

text \<open>A process that has served requests: the converter is constructed, the credential
  has since left the environment, an older scratch file is still on disk.\<close>

definition cached_state :: "string state" where
  "cached_state =
     \<lparr>environ = Map.empty,
      converter_var = Some ''key'',
      files = [''/tmp/old.pdf'' \<mapsto> pdf_magic],
      background_tasks = [],
      trace = []\<rparr>"

subsection \<open>Vocabulary of the properties\<close>

text \<open>A filename that is present and ends, case-insensitively, in \<^verbatim>\<open>.pdf\<close>. The test
  the handlers make, \<^verbatim>\<open>not file.filename or not file.filename.lower().endswith('.pdf')\<close>,
  is its negation (lemma \<open>filename_check\<close>).\<close>

definition is_pdf_name :: "string option \<Rightarrow> bool" where
  "is_pdf_name fn = (case fn of None \<Rightarrow> False | Some f \<Rightarrow> endswith (lower f) ''.pdf'')"

text \<open>The request got as far as the converter, which returned \<open>text\<close>: the filename
  is accepted, the scratch file is \<open>p\<close>, \<open>get_converter\<close> returned the handle \<open>c\<close>.\<close>

definition conversion_returned ::
  "('c, 'r) deps \<Rightarrow> upload \<Rightarrow> 'c state \<Rightarrow> path \<Rightarrow> 'c \<Rightarrow> string \<Rightarrow> bool" where
  "conversion_returned d file s p c text =
     (is_pdf_name (filename file) \<and>
      NamedTemporaryFile d (files s) = Inr p \<and>
      fst (get_converter d s) = Inr c \<and>
      pdf_to_markdown_text d ((files s)(p \<mapsto> content file)) p c False = Inr text)"

text \<open>The request got as far as the extraction client, which returned the non-empty
  mapping \<open>sd\<close> for a text that is not blank.\<close>

definition extraction_returned ::
  "report_kind \<Rightarrow> ('c, 'r) deps \<Rightarrow> upload \<Rightarrow> 'c state \<Rightarrow> path \<Rightarrow> 'c \<Rightarrow> string \<Rightarrow> raw \<Rightarrow> bool" where
  "extraction_returned kind d file s p c text sd =
     (conversion_returned d file s p c text \<and>
      strip text \<noteq> [] \<and>
      get_json kind d text = Inr (Some sd) \<and>
      sd \<noteq> [])"

fun is_call_get_json :: "event \<Rightarrow> bool" where
  "is_call_get_json (Called_get_json kind text) = True"
| "is_call_get_json ev = False"

fun is_call_Report :: "event \<Rightarrow> bool" where
  "is_call_Report (Called_Report kind sd) = True"
| "is_call_Report ev = False"

fun is_call_MarkdownConverter :: "event \<Rightarrow> bool" where
  "is_call_MarkdownConverter (Called_MarkdownConverter k) = True"
| "is_call_MarkdownConverter ev = False"

text \<open>A log record of the given level.\<close>

fun is_log :: "level \<Rightarrow> event \<Rightarrow> bool" where
  "is_log l (Log l' m) = (l = l')"
| "is_log l ev = False"

section \<open>Properties\<close>

subsection \<open>Strings\<close>

lemma all_dropWhile_iff:
  "(\<forall>x\<in>set (dropWhile P xs). P x) \<longleftrightarrow> (\<forall>x\<in>set xs. P x)"
proof
  assume a: "\<forall>x\<in>set (dropWhile P xs). P x"
  have "dropWhile P xs = []"
  proof (rule ccontr)
    assume ne: "dropWhile P xs \<noteq> []"
    then have "\<not> P (hd (dropWhile P xs))" by (rule hd_dropWhile)
    moreover have "hd (dropWhile P xs) \<in> set (dropWhile P xs)" using ne by simp
    ultimately show False using a by blast
  qed
  then show "\<forall>x\<in>set xs. P x" by (simp add: dropWhile_eq_Nil_conv)
next
  assume "\<forall>x\<in>set xs. P x"
  then show "\<forall>x\<in>set (dropWhile P xs). P x" by (meson set_dropWhileD)
qed

lemma strip_empty_iff: "strip s = [] \<longleftrightarrow> (\<forall>ch\<in>set s. isspace ch)"
  by (simp add: strip_def rstrip_def lstrip_def dropWhile_eq_Nil_conv all_dropWhile_iff)

lemma filename_check:
  "(\<not> truthy fn \<or> \<not> endswith (lower (the fn)) ''.pdf'') = (\<not> is_pdf_name fn)"
  by (cases fn) (auto simp: truthy_def is_pdf_name_def lower_def endswith_def)

subsection \<open>Frame properties of get_converter\<close>

lemma get_converter_files [simp]: "files (snd (get_converter d s)) = files s"
  by (simp add: get_converter_def emit_def Let_def split: option.splits sum.splits)

lemma get_converter_tasks [simp]: "background_tasks (snd (get_converter d s)) = background_tasks s"
  by (simp add: get_converter_def emit_def Let_def split: option.splits sum.splits)

lemma get_converter_environ [simp]: "environ (snd (get_converter d s)) = environ s"
  by (simp add: get_converter_def emit_def Let_def split: option.splits sum.splits)

lemma get_converter_fst_frame:
  "environ s' = environ s \<Longrightarrow> converter_var s' = converter_var s \<Longrightarrow>
   fst (get_converter d s') = fst (get_converter d s)"
  by (simp add: get_converter_def emit_def Let_def split: option.splits sum.splits)

lemma get_converter_filter:
  "(\<And>k. \<not> P (Called_MarkdownConverter k)) \<Longrightarrow>
   filter P (trace (snd (get_converter d s))) = filter P (trace s)"
  by (simp add: get_converter_def emit_def Let_def split: option.splits sum.splits)

lemma emit_fields [simp]:
  "environ (emit es s) = environ s"
  "converter_var (emit es s) = converter_var s"
  "files (emit es s) = files s"
  "background_tasks (emit es s) = background_tasks s"
  "trace (emit es s) = trace s @ es"
  by (simp_all add: emit_def)

lemma add_task_fields [simp]:
  "environ (add_task p s) = environ s"
  "converter_var (add_task p s) = converter_var s"
  "files (add_task p s) = files s"
  "background_tasks (add_task p s) = background_tasks s @ [p]"
  "trace (add_task p s) = trace s"
  by (simp_all add: add_task_def)

lemma get_converter_fst_emit [simp]:
  "fst (get_converter d (emit es s)) = fst (get_converter d s)"
  by (rule get_converter_fst_frame) simp_all

lemma get_converter_fst_files [simp]:
  "fst (get_converter d (s\<lparr>files := f\<rparr>)) = fst (get_converter d s)"
  by (rule get_converter_fst_frame) simp_all


lemma get_converter_cached:
  "converter_var s = Some c \<Longrightarrow> get_converter d s = (Inr c, s)"
  by (simp add: get_converter_def)

lemma get_converter_not_set:
  "converter_var s = None \<Longrightarrow> \<not> truthy (environ s MISTRAL_API_KEY) \<Longrightarrow>
   get_converter d s = (Inl (ValueError not_set_message), s)"
  by (simp add: get_converter_def)

lemma get_converter_constructs:
  "converter_var s = None \<Longrightarrow> environ s MISTRAL_API_KEY = Some k \<Longrightarrow> k \<noteq> [] \<Longrightarrow>
   MarkdownConverter d k = Inr c \<Longrightarrow>
   get_converter d s = (Inr c, (emit [Called_MarkdownConverter k] s)\<lparr>converter_var := Some c\<rparr>)"
  by (simp add: get_converter_def truthy_def)

lemma get_converter_constructor_raises:
  "converter_var s = None \<Longrightarrow> environ s MISTRAL_API_KEY = Some k \<Longrightarrow> k \<noteq> [] \<Longrightarrow>
   MarkdownConverter d k = Inl e \<Longrightarrow>
   get_converter d s = (Inl (External e), emit [Called_MarkdownConverter k] s)"
  by (simp add: get_converter_def truthy_def)

lemma get_converter_calls_cached:
  "converter_var s = Some c \<Longrightarrow>
   get_converter_calls d envs s =
     (replicate (length envs) (Inr c), s\<lparr>environ := last (environ s # envs)\<rparr>)"
proof (induction envs arbitrary: s)
  case Nil
  then show ?case by simp
next
  case (Cons env envs)
  have c: "converter_var (s\<lparr>environ := env\<rparr>) = Some c" using Cons.prems by simp
  show ?case
    using Cons.IH [OF c] get_converter_cached [OF c, of d]
    by simp
qed

subsection \<open>The paths through the upload handler\<close>

lemma process_report_blank_text:
  assumes "conversion_returned d file s p c text" and "strip text = []"
  shows "fst (process_report kind d file t0 t1 s) =
           Inl (HTTPException 400 ''Failed to extract text from PDF'')"
    and "filter is_call_get_json (trace (snd (process_report kind d file t0 t1 s))) =
           filter is_call_get_json (trace s)"
    and "background_tasks (snd (process_report kind d file t0 t1 s)) = background_tasks s"
    and "files (snd (process_report kind d file t0 t1 s)) p = Some (content file)"
  using assms filename_check [of "filename file"]
  by (simp_all add: process_report_def conversion_returned_def Let_def split_beta
        get_converter_filter)

lemma process_report_no_extraction:
  assumes "conversion_returned d file s p c text" and "strip text \<noteq> []"
    and "get_json kind d text = Inr None \<or> get_json kind d text = Inr (Some [])"
  shows "fst (process_report kind d file t0 t1 s) =
           Inl (HTTPException 400 ''Failed to extract structured data from document'')"
    and "filter is_call_Report (trace (snd (process_report kind d file t0 t1 s))) =
           filter is_call_Report (trace s)"
    and "background_tasks (snd (process_report kind d file t0 t1 s)) = background_tasks s"
    and "files (snd (process_report kind d file t0 t1 s)) p = Some (content file)"
  using assms filename_check [of "filename file"]
  by (auto simp add: process_report_def conversion_returned_def Let_def split_beta
        get_converter_filter)

lemma process_report_invalid:
  assumes "extraction_returned kind d file s p c text sd" and "Report kind d sd = Inl verr"
  shows "fst (process_report kind d file t0 t1 s) =
           Inr \<lparr>success = True, message = success_message kind (the (filename file)),
                data = Some sd, processing_time = Some (t1 - t0)\<rparr>"
    and "filter (is_log WARNING) (trace (snd (process_report kind d file t0 t1 s))) =
           filter (is_log WARNING) (trace s) @ [Log WARNING (Validation_warning verr)]"
    and "filter (is_log ERROR) (trace (snd (process_report kind d file t0 t1 s))) =
           filter (is_log ERROR) (trace s)"
    and "background_tasks (snd (process_report kind d file t0 t1 s)) = background_tasks s @ [p]"
  using assms filename_check [of "filename file"]
  by (simp_all add: process_report_def extraction_returned_def conversion_returned_def
        Let_def split_beta get_converter_filter)

lemma process_report_valid:
  assumes "extraction_returned kind d file s p c text sd" and "Report kind d sd = Inr r"
  shows "fst (process_report kind d file t0 t1 s) =
           Inr \<lparr>success = True, message = success_message kind (the (filename file)),
                data = Some (model_dump d r), processing_time = Some (t1 - t0)\<rparr>"
    and "background_tasks (snd (process_report kind d file t0 t1 s)) = background_tasks s @ [p]"
  using assms filename_check [of "filename file"]
  by (simp_all add: process_report_def extraction_returned_def conversion_returned_def
        Let_def split_beta get_converter_filter)

lemma process_report_files:
  assumes "is_pdf_name (filename file)" and "NamedTemporaryFile d (files s) = Inr p"
  shows "files (snd (process_report kind d file t0 t1 s)) = (files s)(p \<mapsto> content file)"
  using assms filename_check [of "filename file"]
  by (simp add: process_report_def Let_def split_beta on_exception_def
        split: sum.splits option.splits)

lemma process_report_not_unsupported:
  assumes "is_pdf_name (filename file)"
  shows "fst (process_report kind d file t0 t1 s) \<noteq>
           Inl (HTTPException 400 ''Only PDF files are supported'')"
  using assms filename_check [of "filename file"]
  by (simp add: process_report_def Let_def split_beta on_exception_def
        split: sum.splits option.splits)

lemma process_report_converter_called:
  assumes "is_pdf_name (filename file)" and "NamedTemporaryFile d (files s) = Inr p"
    and "fst (get_converter d s) = Inr c"
  shows "Called_pdf_to_markdown_text p (Some (content file)) False
           \<in> set (trace (snd (process_report kind d file t0 t1 s)))"
  using assms filename_check [of "filename file"]
  by (simp add: process_report_def Let_def split_beta on_exception_def
        split: sum.splits option.splits)

lemma process_report_tasks:
  assumes "is_pdf_name (filename file)" and "NamedTemporaryFile d (files s) = Inr p"
    and "p \<noteq> []"
  shows "background_tasks (snd (process_report kind d file t0 t1 s)) =
           (case fst (process_report kind d file t0 t1 s) of
              Inr r \<Rightarrow> background_tasks s @ [p]
            | Inl h \<Rightarrow> if status_code h = 400 then background_tasks s
                       else background_tasks s @ [p])"
  using assms filename_check [of "filename file"]
  by (auto simp add: process_report_def Let_def split_beta on_exception_def truthy_def
        split: sum.split option.split)

subsection \<open>The examples\<close>

lemma example_names:
  "is_pdf_name (Some ''report.pdf'')"
  "is_pdf_name (Some ''SCAN.PDF'')"
  "is_pdf_name (Some ''.pdf'')"
  "\<not> is_pdf_name (Some ''notes.txt'')"
  "\<not> is_pdf_name (Some [])"
  "\<not> is_pdf_name None"
  by code_simp+

lemma example_texts:
  "strip ''# Report'' \<noteq> []"
  "strip [CHR 0x20, CHR 0x0A] = []"
  "strip [] = []"
  by code_simp+

lemma example_conversion:
  "conversion_returned (example_deps text x) example_upload (initial_state (Some ''key''))
     ''/tmp/t.pdf'' ''key'' text"
  by (simp add: conversion_returned_def example_deps_def example_upload_def initial_state_def
        example_names get_converter_def truthy_def Let_def)

lemma example_extraction:
  "extraction_returned kind (example_deps ''# Report'' (Some example_radiation)) example_upload
     (initial_state (Some ''key'')) ''/tmp/t.pdf'' ''key'' ''# Report'' example_radiation"
  unfolding extraction_returned_def
  by (cases kind) (simp_all add: example_conversion example_texts, simp_all add: example_deps_def example_radiation_def)

lemma example_radiation_valid:
  "construct coerce_strict render_fields RadiationTherapyReport_fields example_radiation
     = Inr example_radiation_dump"
  by (simp add: construct_def RadiationTherapyReport_fields_def example_radiation_def
        example_radiation_dump_def)

lemma example_radiation_not_therapy:
  "construct coerce_strict render_fields TherapyReport_fields example_radiation
     = Inl example_missing"
  by (simp add: construct_def TherapyReport_fields_def example_radiation_def
        example_missing_def render_fields_def)

lemma example_get_json [simp]:
  "get_json kind (example_deps t x) t' = Inr x"
  "get_therapy_json (example_deps t x) t' = Inr x"
  "get_radiation_json (example_deps t x) t' = Inr x"
  by (cases kind) (simp_all add: example_deps_def)

lemma example_Report [simp]:
  "Report Therapy (example_deps t x) =
     construct coerce_strict render_fields TherapyReport_fields"
  "Report Radiation (example_deps t x) =
     construct coerce_strict render_fields RadiationTherapyReport_fields"
  "TherapyReport (example_deps t x) =
     construct coerce_strict render_fields TherapyReport_fields"
  "RadiationTherapyReport (example_deps t x) =
     construct coerce_strict render_fields RadiationTherapyReport_fields"
  "model_dump (example_deps t x) r = r"
  by (simp_all add: example_deps_def)

lemma example_radiation_nonempty: "example_radiation \<noteq> []"
  by (simp add: example_radiation_def)

lemma example_conversion_cached:
  "conversion_returned (example_deps t x) example_upload cached_state ''/tmp/t.pdf'' ''key'' t"
  by (simp add: conversion_returned_def example_deps_def example_upload_def cached_state_def
        example_names get_converter_def)

section \<open>The claims\<close>

subsection \<open>Filename validation\<close>

text \<open>
  C3. An upload whose filename is missing or does not end, case-insensitively, in
  \<^verbatim>\<open>.pdf\<close> is answered by both endpoints with the 400 ``Only PDF files are
  supported'', and the state is the one the request found: no scratch file was
  created, no collaborator was called, nothing was logged or scheduled.
\<close>

theorem unsupported_filename_rejected_before_scratch_file:
  assumes "\<not> is_pdf_name (filename file)"
  shows "process_therapy_report d file t0 t1 s =
           (Inl (HTTPException 400 ''Only PDF files are supported''), s)
       \<and> process_radiation_report d file t0 t1 s =
           (Inl (HTTPException 400 ''Only PDF files are supported''), s)"
  using assms filename_check [of "filename file"]
  by (simp add: process_therapy_report_def process_radiation_report_def process_report_def)

theorem unsupported_filename_rejected_witness:
  "\<not> is_pdf_name (filename \<lparr>filename = Some ''notes.txt'', content = pdf_magic\<rparr>)
   \<and> process_therapy_report (example_deps ''# Report'' None)
        \<lparr>filename = Some ''notes.txt'', content = pdf_magic\<rparr> 0 1 (initial_state (Some ''key''))
      = (Inl (HTTPException 400 ''Only PDF files are supported''), initial_state (Some ''key''))
   \<and> process_radiation_report (example_deps ''# Report'' None)
        \<lparr>filename = None, content = pdf_magic\<rparr> 0 1 (initial_state (Some ''key''))
      = (Inl (HTTPException 400 ''Only PDF files are supported''), initial_state (Some ''key''))"
  using unsupported_filename_rejected_before_scratch_file
          [of "\<lparr>filename = Some ''notes.txt'', content = pdf_magic\<rparr>"
              "example_deps ''# Report'' None" 0 1 "initial_state (Some ''key'')"]
        unsupported_filename_rejected_before_scratch_file
          [of "\<lparr>filename = None, content = pdf_magic\<rparr>"
              "example_deps ''# Report'' None" 0 1 "initial_state (Some ''key'')"]
  by (simp add: example_names)

text \<open>
  C9. Validation looks at the filename only. For an upload whose filename ends,
  case-insensitively, in \<^verbatim>\<open>.pdf\<close>, whatever its bytes \<open>b\<close>: the handler does not answer
  ``Only PDF files are supported''; once the scratch file \<open>p\<close> exists it holds exactly
  \<open>b\<close> when the handler returns; and once \<open>get_converter\<close> has returned, the converter
  is called on \<open>p\<close> while \<open>p\<close> holds exactly \<open>b\<close>. The name \<^verbatim>\<open>.pdf\<close> itself is accepted.
\<close>

theorem validation_inspects_only_the_filename:
  assumes "endswith (lower f) ''.pdf''"
  shows "fst (process_report kind d \<lparr>filename = Some f, content = b\<rparr> t0 t1 s) \<noteq>
           Inl (HTTPException 400 ''Only PDF files are supported'')
       \<and> (NamedTemporaryFile d (files s) = Inr p \<longrightarrow>
            files (snd (process_report kind d \<lparr>filename = Some f, content = b\<rparr> t0 t1 s)) p = Some b)
       \<and> (NamedTemporaryFile d (files s) = Inr p \<and> fst (get_converter d s) = Inr c \<longrightarrow>
            Called_pdf_to_markdown_text p (Some b) False
              \<in> set (trace (snd (process_report kind d \<lparr>filename = Some f, content = b\<rparr> t0 t1 s))))
       \<and> endswith (lower ''.pdf'') ''.pdf''"
proof -
  have v: "is_pdf_name (filename \<lparr>filename = Some f, content = b\<rparr>)"
    using assms by (simp add: is_pdf_name_def)
  have dot: "endswith (lower ''.pdf'') ''.pdf''"
    using example_names(3) by (simp add: is_pdf_name_def)
  show ?thesis
    using process_report_not_unsupported [OF v, of kind d t0 t1 s]
          process_report_files [OF v, of d s p kind t0 t1]
          process_report_converter_called [OF v, of d s p c kind t0 t1]
          dot
    by simp
qed

theorem validation_inspects_only_the_filename_witness:
  "endswith (lower ''.pdf'') ''.pdf''
   \<and> NamedTemporaryFile (example_deps ''# Report'' None) (files (initial_state (Some ''key'')))
       = Inr ''/tmp/t.pdf''
   \<and> fst (get_converter (example_deps ''# Report'' None) (initial_state (Some ''key''))) = Inr ''key''
   \<and> fst (process_report Therapy (example_deps ''# Report'' None)
            \<lparr>filename = Some ''.pdf'', content = [0, 255]\<rparr> 0 1 (initial_state (Some ''key'')))
       \<noteq> Inl (HTTPException 400 ''Only PDF files are supported'')
   \<and> files (snd (process_report Therapy (example_deps ''# Report'' None)
            \<lparr>filename = Some ''.pdf'', content = [0, 255]\<rparr> 0 1 (initial_state (Some ''key''))))
         ''/tmp/t.pdf'' = Some [0, 255]
   \<and> Called_pdf_to_markdown_text ''/tmp/t.pdf'' (Some [0, 255]) False
       \<in> set (trace (snd (process_report Therapy (example_deps ''# Report'' None)
            \<lparr>filename = Some ''.pdf'', content = [0, 255]\<rparr> 0 1 (initial_state (Some ''key'')))))"
proof -
  have dot: "endswith (lower ''.pdf'') ''.pdf''"
    using example_names(3) by (simp add: is_pdf_name_def)
  have tmp: "NamedTemporaryFile (example_deps ''# Report'' None) (files (initial_state (Some ''key'')))
       = Inr ''/tmp/t.pdf''"
    by (simp add: example_deps_def)
  have conv: "fst (get_converter (example_deps ''# Report'' None) (initial_state (Some ''key'')))
       = Inr ''key''"
    using example_conversion [of "''# Report''" None] by (simp add: conversion_returned_def)
  from validation_inspects_only_the_filename
         [OF dot, of Therapy "example_deps ''# Report'' None" "[0, 255]" 0 1
            "initial_state (Some ''key'')" "''/tmp/t.pdf''" "''key''"]
       dot tmp conv
  show ?thesis by simp
qed

subsection \<open>Empty conversion and empty extraction\<close>

text \<open>
  C4. For a request that passed filename validation and reached the converter: when the
  converter returns a text that is empty or all whitespace, the handler raises the 400
  ``Failed to extract text from PDF'' and the trace holds no new call of the extraction
  client; when the text is not blank and the extraction client returns \<^verbatim>\<open>None\<close> or the
  empty mapping, the handler raises the 400 ``Failed to extract structured data from
  document'' and the trace holds no new call of a report constructor.
\<close>

theorem blank_text_and_empty_extraction_are_client_errors:
  assumes "conversion_returned d file s p c text"
  shows "((\<forall>ch\<in>set text. isspace ch) \<longrightarrow>
            fst (process_report kind d file t0 t1 s) =
              Inl (HTTPException 400 ''Failed to extract text from PDF'')
          \<and> filter is_call_get_json (trace (snd (process_report kind d file t0 t1 s))) =
              filter is_call_get_json (trace s))
       \<and> (\<not> (\<forall>ch\<in>set text. isspace ch)
            \<and> (get_json kind d text = Inr None \<or> get_json kind d text = Inr (Some [])) \<longrightarrow>
            fst (process_report kind d file t0 t1 s) =
              Inl (HTTPException 400 ''Failed to extract structured data from document'')
          \<and> filter is_call_Report (trace (snd (process_report kind d file t0 t1 s))) =
              filter is_call_Report (trace s))"
  using process_report_blank_text(1,2) [OF assms, of kind t0 t1]
        process_report_no_extraction(1,2) [OF assms, of kind t0 t1]
  by (simp add: strip_empty_iff)

theorem blank_text_and_empty_extraction_witness:
  "conversion_returned (example_deps [CHR 0x20, CHR 0x0A] (Some example_radiation)) example_upload
     (initial_state (Some ''key'')) ''/tmp/t.pdf'' ''key'' [CHR 0x20, CHR 0x0A]
   \<and> list_all isspace [CHR 0x20, CHR 0x0A]
   \<and> fst (process_report Therapy (example_deps [CHR 0x20, CHR 0x0A] (Some example_radiation))
            example_upload 0 1 (initial_state (Some ''key''))) =
        Inl (HTTPException 400 ''Failed to extract text from PDF'')
   \<and> conversion_returned (example_deps ''# Report'' (Some [])) example_upload
        (initial_state (Some ''key'')) ''/tmp/t.pdf'' ''key'' ''# Report''
   \<and> \<not> list_all isspace ''# Report''
   \<and> get_json Radiation (example_deps ''# Report'' (Some [])) ''# Report'' = Inr (Some [])
   \<and> fst (process_report Radiation (example_deps ''# Report'' (Some []))
            example_upload 0 1 (initial_state (Some ''key''))) =
        Inl (HTTPException 400 ''Failed to extract structured data from document'')"
proof -
  have blank: "\<forall>ch\<in>set [CHR 0x20, CHR 0x0A]. isspace ch"
    using example_texts(2) unfolding strip_empty_iff .
  have nonblank: "\<not> (\<forall>ch\<in>set ''# Report''. isspace ch)"
    using example_texts(1) unfolding strip_empty_iff .
  have c1: "conversion_returned (example_deps [CHR 0x20, CHR 0x0A] (Some example_radiation))
      example_upload (initial_state (Some ''key'')) ''/tmp/t.pdf'' ''key'' [CHR 0x20, CHR 0x0A]"
    by (rule example_conversion)
  have c2: "conversion_returned (example_deps ''# Report'' (Some [])) example_upload
      (initial_state (Some ''key'')) ''/tmp/t.pdf'' ''key'' ''# Report''"
    by (rule example_conversion)
  have ex: "get_json Radiation (example_deps ''# Report'' (Some [])) ''# Report'' = Inr (Some [])"
    by (simp add: example_deps_def)
  from blank_text_and_empty_extraction_are_client_errors [OF c1, of Therapy 0 1] blank
  have r1: "fst (process_report Therapy (example_deps [CHR 0x20, CHR 0x0A] (Some example_radiation))
            example_upload 0 1 (initial_state (Some ''key''))) =
        Inl (HTTPException 400 ''Failed to extract text from PDF'')"
    by blast
  from blank_text_and_empty_extraction_are_client_errors [OF c2, of Radiation 0 1] nonblank ex
  have r2: "fst (process_report Radiation (example_deps ''# Report'' (Some []))
            example_upload 0 1 (initial_state (Some ''key''))) =
        Inl (HTTPException 400 ''Failed to extract structured data from document'')"
    by blast
  from blank nonblank c1 c2 ex r1 r2 show ?thesis by (simp only: list_all_iff) blast
qed

subsection \<open>Schema validation\<close>

text \<open>
  C2. When the extraction client returned the non-empty mapping \<open>sd\<close> and the report
  constructor raises on it, the response is \<^verbatim>\<open>success=True\<close> with \<^verbatim>\<open>data\<close> the mapping
  \<open>sd\<close> itself; one WARNING record is logged and no ERROR record. A second request that
  reaches the same mapping, in any state and at any time, gets the same payload.
\<close>

theorem validation_failure_returns_raw_mapping:
  assumes "extraction_returned kind d file s p c text sd"
    and "extraction_returned kind d file' s' p' c' text' sd"
    and "Report kind d sd = Inl verr"
  shows "fst (process_report kind d file t0 t1 s) =
           Inr \<lparr>success = True, message = success_message kind (the (filename file)),
                data = Some sd, processing_time = Some (t1 - t0)\<rparr>
       \<and> fst (process_report kind d file' t0' t1' s') =
           Inr \<lparr>success = True, message = success_message kind (the (filename file')),
                data = Some sd, processing_time = Some (t1' - t0')\<rparr>
       \<and> filter (is_log WARNING) (trace (snd (process_report kind d file t0 t1 s))) =
           filter (is_log WARNING) (trace s) @ [Log WARNING (Validation_warning verr)]
       \<and> filter (is_log ERROR) (trace (snd (process_report kind d file t0 t1 s))) =
           filter (is_log ERROR) (trace s)"
  using process_report_invalid(1,2,3) [OF assms(1) assms(3), of t0 t1]
        process_report_invalid(1) [OF assms(2) assms(3), of t0' t1']
  by simp

theorem validation_failure_returns_raw_mapping_witness:
  "extraction_returned Therapy (example_deps ''# Report'' (Some example_radiation)) example_upload
     (initial_state (Some ''key'')) ''/tmp/t.pdf'' ''key'' ''# Report'' example_radiation
   \<and> extraction_returned Therapy (example_deps ''# Report'' (Some example_radiation)) example_upload
     cached_state ''/tmp/t.pdf'' ''key'' ''# Report'' example_radiation
   \<and> Report Therapy (example_deps ''# Report'' (Some example_radiation)) example_radiation
       = Inl example_missing
   \<and> fst (process_report Therapy (example_deps ''# Report'' (Some example_radiation))
            example_upload 10 12 (initial_state (Some ''key''))) =
        Inr \<lparr>success = True, message = ''Successfully processed therapy report: report.pdf'',
             data = Some example_radiation, processing_time = Some 2\<rparr>
   \<and> fst (process_report Therapy (example_deps ''# Report'' (Some example_radiation))
            example_upload 20 25 cached_state) =
        Inr \<lparr>success = True, message = ''Successfully processed therapy report: report.pdf'',
             data = Some example_radiation, processing_time = Some 5\<rparr>"
proof -
  let ?d = "example_deps ''# Report'' (Some example_radiation)"
  have e1: "extraction_returned Therapy ?d example_upload
     (initial_state (Some ''key'')) ''/tmp/t.pdf'' ''key'' ''# Report'' example_radiation"
    by (simp add: extraction_returned_def example_conversion example_texts
          example_radiation_nonempty)
  have e2: "extraction_returned Therapy ?d example_upload
     cached_state ''/tmp/t.pdf'' ''key'' ''# Report'' example_radiation"
    by (simp add: extraction_returned_def example_conversion_cached example_texts
          example_radiation_nonempty)
  have inv: "Report Therapy ?d example_radiation = Inl example_missing"
    by (simp add: example_radiation_not_therapy)
  from validation_failure_returns_raw_mapping [OF e1 e2 inv, of 10 12 20 25]
  have "fst (process_report Therapy ?d example_upload 10 12 (initial_state (Some ''key''))) =
        Inr \<lparr>success = True, message = ''Successfully processed therapy report: report.pdf'',
             data = Some example_radiation, processing_time = Some 2\<rparr>"
    and "fst (process_report Therapy ?d example_upload 20 25 cached_state) =
        Inr \<lparr>success = True, message = ''Successfully processed therapy report: report.pdf'',
             data = Some example_radiation, processing_time = Some 5\<rparr>"
    by (simp_all add: example_upload_def)
  with e1 e2 inv show ?thesis by blast
qed

text \<open>
  C5. When the report constructor accepts the extracted mapping, the response is
  \<^verbatim>\<open>success=True\<close>, the message ends with the original filename, \<^verbatim>\<open>processing_time\<close> is
  the second clock reading minus the first, and \<^verbatim>\<open>data\<close> is the \<^verbatim>\<open>model_dump()\<close> of the
  constructed report.
\<close>

theorem valid_report_is_returned_as_model_dump:
  assumes "extraction_returned kind d file s p c text sd"
    and "Report kind d sd = Inr r"
    and "filename file = Some fname"
  shows "fst (process_report kind d file t0 t1 s) =
           Inr \<lparr>success = True, message = success_message kind fname,
                data = Some (model_dump d r), processing_time = Some (t1 - t0)\<rparr>
       \<and> (\<exists>prefix. success_message kind fname = prefix @ fname)"
  using process_report_valid(1) [OF assms(1) assms(2), of t0 t1] assms(3)
  by (cases kind) simp_all

theorem valid_report_is_returned_witness:
  "extraction_returned Radiation (example_deps ''# Report'' (Some example_radiation)) example_upload
     (initial_state (Some ''key'')) ''/tmp/t.pdf'' ''key'' ''# Report'' example_radiation
   \<and> Report Radiation (example_deps ''# Report'' (Some example_radiation)) example_radiation
       = Inr example_radiation_dump
   \<and> filename example_upload = Some ''report.pdf''
   \<and> fst (process_report Radiation (example_deps ''# Report'' (Some example_radiation))
            example_upload 10 12.5 (initial_state (Some ''key''))) =
        Inr \<lparr>success = True,
             message = ''Successfully processed radiation therapy report: report.pdf'',
             data = Some example_radiation_dump, processing_time = Some 2.5\<rparr>"
proof -
  let ?d = "example_deps ''# Report'' (Some example_radiation)"
  have e1: "extraction_returned Radiation ?d example_upload
     (initial_state (Some ''key'')) ''/tmp/t.pdf'' ''key'' ''# Report'' example_radiation"
    by (simp add: extraction_returned_def example_conversion example_texts
          example_radiation_nonempty)
  have ok: "Report Radiation ?d example_radiation = Inr example_radiation_dump"
    by (simp add: example_radiation_valid)
  have fn: "filename example_upload = Some ''report.pdf''"
    by (simp add: example_upload_def)
  from valid_report_is_returned_as_model_dump [OF e1 ok fn, of 10 "12.5"]
  have "fst (process_report Radiation ?d example_upload 10 12.5 (initial_state (Some ''key''))) =
        Inr \<lparr>success = True,
             message = ''Successfully processed radiation therapy report: report.pdf'',
             data = Some example_radiation_dump, processing_time = Some 2.5\<rparr>"
    by simp
  with e1 ok fn show ?thesis by blast
qed

subsection \<open>Cleanup of the scratch file\<close>

text \<open>
  C1. The claim is that cleanup of the scratch file is scheduled on every error exit.
  The branch \<^verbatim>\<open>except Exception\<close> does schedule it (lemma \<open>process_report_tasks\<close>), the
  branch \<^verbatim>\<open>except HTTPException: raise\<close> does not: at the two inputs below the handlers
  answer 400 after the scratch file \<^verbatim>\<open>/tmp/t.pdf\<close> was written, the file is still
  there, and no task was added for it.
\<close>

theorem scratch_file_not_scheduled_on_client_error:
  "fst (process_therapy_report (example_deps [] (Some example_radiation)) example_upload 0 1
          (initial_state (Some ''key'')))
     = Inl (HTTPException 400 ''Failed to extract text from PDF'')
   \<and> files (snd (process_therapy_report (example_deps [] (Some example_radiation)) example_upload
          0 1 (initial_state (Some ''key'')))) ''/tmp/t.pdf'' = Some pdf_magic
   \<and> background_tasks (snd (process_therapy_report (example_deps [] (Some example_radiation))
          example_upload 0 1 (initial_state (Some ''key'')))) = []
   \<and> fst (process_radiation_report (example_deps ''# Report'' None) example_upload 0 1
          (initial_state (Some ''key'')))
     = Inl (HTTPException 400 ''Failed to extract structured data from document'')
   \<and> files (snd (process_radiation_report (example_deps ''# Report'' None) example_upload
          0 1 (initial_state (Some ''key'')))) ''/tmp/t.pdf'' = Some pdf_magic
   \<and> background_tasks (snd (process_radiation_report (example_deps ''# Report'' None)
          example_upload 0 1 (initial_state (Some ''key'')))) = []"
  using process_report_blank_text(1,3,4)
          [OF example_conversion [of "[]" "Some example_radiation"], of Therapy 0 1]
        process_report_no_extraction(1,3,4)
          [OF example_conversion [of "''# Report''" None], of Radiation 0 1]
        example_texts
  by (simp add: process_therapy_report_def process_radiation_report_def initial_state_def
        example_upload_def)

text \<open>
  C8. \<open>cleanup_temp_file\<close> never raises: it always returns normally. For a path with
  no file it leaves the state as it was; when \<^verbatim>\<open>os.remove\<close> raises, the only effect is
  one ERROR log record; when it succeeds, the file is gone.
\<close>

theorem cleanup_temp_file_never_raises:
  "(\<exists>s'. cleanup_temp_file d p s = Inr s')
   \<and> (files s p = None \<longrightarrow> cleanup_temp_file d p s = Inr s)
   \<and> (files s p \<noteq> None \<and> os_remove_error d (files s) p = Some e \<longrightarrow>
        cleanup_temp_file d p s = Inr (emit [Log ERROR (Failed_to_cleanup p e)] s))
   \<and> (files s p \<noteq> None \<and> os_remove_error d (files s) p = None \<longrightarrow>
        (\<exists>s'. cleanup_temp_file d p s = Inr s' \<and> files s' p = None))"
  by (auto simp: cleanup_temp_file_def cleanup_try_def split: sum.splits option.splits)

theorem cleanup_temp_file_never_raises_witness:
  "cleanup_temp_file (example_deps [] None) ''/tmp/gone.pdf'' (initial_state None)
     = Inr (initial_state None)
   \<and> cleanup_temp_file
        ((example_deps [] None)\<lparr>os_remove_error := (\<lambda>fs p. Some ''Permission denied'')\<rparr>)
        ''/tmp/t.pdf'' ((initial_state None)\<lparr>files := [''/tmp/t.pdf'' \<mapsto> pdf_magic]\<rparr>)
     = Inr (emit [Log ERROR (Failed_to_cleanup ''/tmp/t.pdf'' ''Permission denied'')]
             ((initial_state None)\<lparr>files := [''/tmp/t.pdf'' \<mapsto> pdf_magic]\<rparr>))"
  using cleanup_temp_file_never_raises
          [of "example_deps [] None" "''/tmp/gone.pdf''" "initial_state None" "[]"]
        cleanup_temp_file_never_raises
          [of "(example_deps [] None)\<lparr>os_remove_error := (\<lambda>fs p. Some ''Permission denied'')\<rparr>"
              "''/tmp/t.pdf''" "(initial_state None)\<lparr>files := [''/tmp/t.pdf'' \<mapsto> pdf_magic]\<rparr>"
              "''Permission denied''"]
  by (simp add: initial_state_def example_deps_def)

subsection \<open>The converter handle and the credential\<close>

text \<open>
  C7, as stated: the first call of \<open>get_converter\<close> raises the configuration error if
  and only if the credential variable is unset. With the variable set to the empty
  string the first call raises it too.
\<close>

theorem get_converter_raises_when_set_but_empty:
  "\<not> (fst (get_converter (example_deps [] None) (initial_state (Some [])))
          = Inl (ValueError not_set_message)
        \<longleftrightarrow> environ (initial_state (Some [])) MISTRAL_API_KEY = None)"
  by (simp add: get_converter_def initial_state_def truthy_def)

text \<open>
  C7, amended. With no converter constructed yet, \<open>get_converter\<close> raises the
  configuration error if and only if the credential is unset or empty. A call that
  returns a handle has stored it and has called the constructor at most once; every
  later call, whatever the environment has become, returns that same handle and leaves
  the state as it is (no constructor call, no look at the credential).
\<close>

theorem get_converter_is_a_lazy_singleton:
  "(converter_var s = None \<longrightarrow>
      (fst (get_converter d s) = Inl (ValueError not_set_message))
        = (environ s MISTRAL_API_KEY = None \<or> environ s MISTRAL_API_KEY = Some []))
   \<and> (get_converter d s = (Inr c, s1) \<longrightarrow>
        converter_var s1 = Some c
        \<and> length (filter is_call_MarkdownConverter (trace s1))
            \<le> Suc (length (filter is_call_MarkdownConverter (trace s)))
        \<and> get_converter_calls d envs s1 =
            (replicate (length envs) (Inr c), s1\<lparr>environ := last (environ s1 # envs)\<rparr>))"
proof (intro conjI impI)
  assume "converter_var s = None"
  then show "(fst (get_converter d s) = Inl (ValueError not_set_message))
        = (environ s MISTRAL_API_KEY = None \<or> environ s MISTRAL_API_KEY = Some [])"
    by (auto simp: get_converter_def truthy_def Let_def split: option.splits sum.splits)
next
  assume g: "get_converter d s = (Inr c, s1)"
  then show c: "converter_var s1 = Some c"
    by (auto simp: get_converter_def truthy_def Let_def split: option.splits sum.splits if_splits)
  from g show "length (filter is_call_MarkdownConverter (trace s1))
            \<le> Suc (length (filter is_call_MarkdownConverter (trace s)))"
    by (auto simp: get_converter_def truthy_def Let_def split: option.splits sum.splits if_splits)
  from c show "get_converter_calls d envs s1 =
            (replicate (length envs) (Inr c), s1\<lparr>environ := last (environ s1 # envs)\<rparr>)"
    by (rule get_converter_calls_cached)
qed

theorem get_converter_is_a_lazy_singleton_witness:
  "converter_var (initial_state (Some ''key'')) = None
   \<and> fst (get_converter (example_deps [] None) (initial_state (Some ''key'')))
        \<noteq> Inl (ValueError not_set_message)
   \<and> fst (get_converter (example_deps [] None) (initial_state None))
        = Inl (ValueError not_set_message)
   \<and> get_converter (example_deps [] None) (initial_state (Some ''key''))
        = (Inr ''key'', (emit [Called_MarkdownConverter ''key''] (initial_state (Some ''key'')))
                          \<lparr>converter_var := Some ''key''\<rparr>)
   \<and> fst (get_converter_calls (example_deps [] None) [Map.empty, Map.empty]
            ((emit [Called_MarkdownConverter ''key''] (initial_state (Some ''key'')))
               \<lparr>converter_var := Some ''key''\<rparr>))
        = [Inr ''key'', Inr ''key'']"
proof -
  let ?d = "example_deps [] None :: (string, raw) deps"
  let ?s1 = "(emit [Called_MarkdownConverter ''key''] (initial_state (Some ''key'')))
               \<lparr>converter_var := Some ''key''\<rparr>"
  have n: "converter_var (initial_state (Some ''key'')) = None"
    by (simp add: initial_state_def)
  have g: "get_converter ?d (initial_state (Some ''key'')) = (Inr ''key'', ?s1)"
    by (rule get_converter_constructs) (simp_all add: initial_state_def example_deps_def)
  from get_converter_is_a_lazy_singleton
         [of "initial_state (Some ''key'')" ?d "''key''" ?s1 "[Map.empty, Map.empty]"] n g
  have r1: "fst (get_converter ?d (initial_state (Some ''key''))) \<noteq> Inl (ValueError not_set_message)"
    and r2: "fst (get_converter_calls ?d [Map.empty, Map.empty] ?s1) = [Inr ''key'', Inr ''key'']"
    by (simp_all add: initial_state_def)
  from get_converter_is_a_lazy_singleton [of "initial_state None" ?d]
  have r3: "fst (get_converter ?d (initial_state None)) = Inl (ValueError not_set_message)"
    by (simp add: initial_state_def)
  from n g r1 r2 r3 show ?thesis by blast
qed

text \<open>
  C10. With the credential set to the empty string, \<open>health_check\<close> answers healthy with
  the flag false and leaves the state as it found it (no client is constructed), and
  \<open>get_converter\<close> raises the configuration error when no handle is cached; both
  operations return what they return when the credential is unset.
\<close>

theorem empty_credential_is_treated_as_absent:
  assumes "environ s MISTRAL_API_KEY = Some []"
  shows "health_check d s = (Inr \<lparr>status = ''healthy'', mistral_api_configured = False\<rparr>, s)
       \<and> (converter_var s = None \<longrightarrow>
            get_converter d s = (Inl (ValueError not_set_message), s))
       \<and> fst (health_check d (s\<lparr>environ := (environ s)(MISTRAL_API_KEY := None)\<rparr>)) =
           fst (health_check d s)
       \<and> fst (get_converter d (s\<lparr>environ := (environ s)(MISTRAL_API_KEY := None)\<rparr>)) =
           fst (get_converter d s)"
  using assms
  by (simp add: health_check_def truthy_def get_converter_def Let_def split: option.splits)

theorem empty_credential_witness:
  "environ (initial_state (Some [])) MISTRAL_API_KEY = Some []
   \<and> health_check (example_deps [] None) (initial_state (Some []))
       = (Inr \<lparr>status = ''healthy'', mistral_api_configured = False\<rparr>, initial_state (Some []))
   \<and> get_converter (example_deps [] None) (initial_state (Some []))
       = (Inl (ValueError ''MISTRAL_API_KEY environment variable not set.''),
          initial_state (Some []))"
  using empty_credential_is_treated_as_absent
          [of "initial_state (Some [])" "example_deps [] None"]
  by (simp add: initial_state_def not_set_message_def)

subsection \<open>The health check\<close>

text \<open>
  C6. With the credential unset, \<open>health_check\<close> returns status healthy with the flag
  false and the state unchanged: it raised nothing and called no constructor. With a
  non-empty credential, when construction of the extraction client raises, or when it
  succeeds and construction of the converter raises, the result is the 500 whose detail
  is ``Service unhealthy: '' followed by the text of the exception.
\<close>

theorem health_check_outcomes:
  "(environ s MISTRAL_API_KEY = None \<longrightarrow>
      health_check d s = (Inr \<lparr>status = ''healthy'', mistral_api_configured = False\<rparr>, s))
   \<and> (environ s MISTRAL_API_KEY = Some k \<and> k \<noteq> [] \<and> get_mistral_client d (environ s) = Inl e \<longrightarrow>
      fst (health_check d s) = Inl (HTTPException 500 (''Service unhealthy: '' @ e)))
   \<and> (environ s MISTRAL_API_KEY = Some k \<and> k \<noteq> [] \<and> get_mistral_client d (environ s) = Inr ()
        \<and> converter_var s = None \<and> MarkdownConverter d k = Inl e \<longrightarrow>
      fst (health_check d s) = Inl (HTTPException 500 (''Service unhealthy: '' @ e)))"
  by (simp add: health_check_def health_failed_def truthy_def get_converter_def Let_def)

theorem health_check_outcomes_witness:
  "health_check (failing_deps (Some ''bad key'') None) (initial_state None)
     = (Inr \<lparr>status = ''healthy'', mistral_api_configured = False\<rparr>, initial_state None)
   \<and> fst (health_check (failing_deps (Some ''bad key'') None) (initial_state (Some ''key'')))
     = Inl (HTTPException 500 ''Service unhealthy: bad key'')
   \<and> fst (health_check (failing_deps None (Some ''no route'')) (initial_state (Some ''key'')))
     = Inl (HTTPException 500 ''Service unhealthy: no route'')"
  using health_check_outcomes
          [of "initial_state None" "failing_deps (Some ''bad key'') None" "''key''" "''bad key''"]
        health_check_outcomes
          [of "initial_state (Some ''key'')" "failing_deps (Some ''bad key'') None" "''key''"
              "''bad key''"]
        health_check_outcomes
          [of "initial_state (Some ''key'')" "failing_deps None (Some ''no route'')" "''key''"
              "''no route''"]
  by (simp add: initial_state_def failing_deps_def example_deps_def)

end
